theory Spec2Isabelle
  imports Complex_Main "HOL-Library.Product_Lexorder"
begin

section \<open>Data model\<close>

text \<open>
  The recommendation engine of \<^verbatim>\<open>server/recommendation_service.py\<close> works on JSON
  dictionaries. A product is a dictionary whose keys may be absent; a key that is
  present carries a value of the type the data model gives it (an integer identifier,
  text, a number). An absent key is \<open>None\<close>. Numbers are modelled as reals (Python
  floats without rounding), strings as lists of ASCII characters. The fields stand for
  the keys \<^verbatim>\<open>id\<close>, \<^verbatim>\<open>category\<close>, \<^verbatim>\<open>title\<close>, \<^verbatim>\<open>text\<close>, \<^verbatim>\<open>price\<close> and \<^verbatim>\<open>ecoScore\<close> (the
  eco-score, spelled \<^verbatim>\<open>eco_score\<close> in \<^verbatim>\<open>server/recommendations.py\<close>).
\<close>

record product =
  p_id :: "int option"
  p_category :: "string option"
  p_title :: "string option"
  p_text :: "string option"
  p_price :: "real option"
  p_ecoScore :: "real option"

text \<open>\<^verbatim>\<open>{**product, 'recommendation_score': score}\<close>\<close>

record scored_product =
  sp_product :: product
  recommendation_score :: real

text \<open>A cart or wishlist item: a dictionary that may hold a nested \<^verbatim>\<open>'product'\<close>.\<close>

record activity_item =
  item_product :: "product option"

text \<open>The dictionary that \<^verbatim>\<open>_extract_user_preferences\<close> builds and returns.\<close>

record preferences =
  preferred_categories :: "string \<rightharpoonup> nat"
  price_range_min :: real
  price_range_max :: real
  eco_score_threshold :: real
  pref_keywords :: "string list"

record user_data =
  ud_age :: "int option"
  ud_gender :: "string option"
  ud_cart_items :: "activity_item list option"
  ud_wishlist_items :: "activity_item list option"
  ud_viewed_products :: "product list option"

datatype error = KeyError

section \<open>Python primitives\<close>

text \<open>\<^verbatim>\<open>d.get(key, default)\<close> and \<^verbatim>\<open>d[key]\<close>.\<close>

definition get :: "'a option \<Rightarrow> 'a \<Rightarrow> 'a" where
  "get field dflt = (case field of None \<Rightarrow> dflt | Some v \<Rightarrow> v)"

definition index :: "'a option \<Rightarrow> error + 'a" where
  "index field = (case field of None \<Rightarrow> Inl KeyError | Some v \<Rightarrow> Inr v)"

text \<open>\<^verbatim>\<open>str.lower()\<close> on ASCII text.\<close>

definition lower_char :: "char \<Rightarrow> char" where
  "lower_char c =
     (let n = (of_char c :: nat) in if 65 \<le> n \<and> n \<le> 90 then char_of (n + 32) else c)"

definition str_lower :: "string \<Rightarrow> string" where
  "str_lower s = map lower_char s"

text \<open>\<^verbatim>\<open>needle in haystack\<close> on strings: substring containment.\<close>

fun startswith :: "string \<Rightarrow> string \<Rightarrow> bool" where
  "startswith [] s = True"
| "startswith (k # ks) [] = False"
| "startswith (k # ks) (c # cs) = (k = c \<and> startswith ks cs)"

fun str_in :: "string \<Rightarrow> string \<Rightarrow> bool" where
  "str_in k [] = (k = [])"
| "str_in k (c # cs) = (startswith k (c # cs) \<or> str_in k cs)"

text \<open>\<^verbatim>\<open>str.split()\<close> without arguments: the maximal runs of non-whitespace.\<close>

definition is_space :: "char \<Rightarrow> bool" where
  "is_space c = (let n = (of_char c :: nat) in (9 \<le> n \<and> n \<le> 13) \<or> (28 \<le> n \<and> n \<le> 32))"

fun split_acc :: "string \<Rightarrow> string \<Rightarrow> string list" where
  "split_acc w [] = (if w = [] then [] else [rev w])"
| "split_acc w (c # cs) =
     (if is_space c then (if w = [] then split_acc [] cs else rev w # split_acc [] cs)
      else split_acc (c # w) cs)"

definition str_split :: "string \<Rightarrow> string list" where
  "str_split s = split_acc [] s"

text \<open>\<^verbatim>\<open>xs[:limit]\<close>: a negative limit counts from the end.\<close>

definition slice_to :: "int \<Rightarrow> 'a list \<Rightarrow> 'a list" where
  "slice_to limit xs =
     (if 0 \<le> limit then take (nat limit) xs else take (nat (int (length xs) + limit)) xs)"

text \<open>
  \<^verbatim>\<open>xs.sort(key=f, reverse=True)\<close>: descending by key, entries with equal keys stay in
  their original order.
\<close>

definition sort_reverse :: "('a \<Rightarrow> 'k::linorder) \<Rightarrow> 'a list \<Rightarrow> 'a list" where
  "sort_reverse f xs = rev (sort_key f (rev xs))"

text \<open>
  \<^verbatim>\<open>min(xs)\<close> and \<^verbatim>\<open>max(xs)\<close> of the non-empty list \<open>x # xs\<close>. On the empty list Python
  raises \<^verbatim>\<open>ValueError\<close>; every caller tests the list first, which the model writes as a
  case distinction on the list.
\<close>

definition py_min :: "real \<Rightarrow> real list \<Rightarrow> real" where
  "py_min x xs = fold min xs x"

definition py_max :: "real \<Rightarrow> real list \<Rightarrow> real" where
  "py_max x xs = fold max xs x"

section \<open>Demographic scoring\<close>

text \<open>\<^verbatim>\<open>any(keyword in a or keyword in b for keyword in kws)\<close>\<close>

definition any_in2 :: "string list \<Rightarrow> string \<Rightarrow> string \<Rightarrow> bool" where
  "any_in2 kws a b = list_ex (\<lambda>keyword. str_in keyword a \<or> str_in keyword b) kws"

text \<open>\<^verbatim>\<open>any(keyword in a for keyword in kws)\<close>\<close>

definition any_in :: "string list \<Rightarrow> string \<Rightarrow> bool" where
  "any_in kws a = list_ex (\<lambda>keyword. str_in keyword a) kws"

definition calculate_demographic_score :: "product \<Rightarrow> int \<Rightarrow> string \<Rightarrow> real" where
  "calculate_demographic_score product user_age user_gender =
     (let score = 0;
          score = score + get (p_ecoScore product) 0 * 0.6;
          category = str_lower (get (p_category product) '''');
          title = str_lower (get (p_title product) '''');
          text = str_lower (get (p_text product) '''');
          score =
            (if user_age < 25 then
               (let score =
                      (if any_in2 [''electronics'', ''fashion'', ''sports'', ''tech'', ''gadget'']
                            category title
                       then score + 15 else score)
                in if any_in [''portable'', ''travel'', ''compact'', ''modern''] text
                   then score + 5 else score)
             else if user_age < 40 then
               (let score =
                      (if any_in [''home'', ''kitchen'', ''outdoor'', ''garden''] category
                       then score + 15 else score)
                in if any_in [''family'', ''home'', ''kitchen'', ''cooking''] text
                   then score + 5 else score)
             else
               (let score =
                      (if any_in [''health'', ''improvement'', ''garden'', ''wellness''] category
                       then score + 15 else score)
                in if any_in [''comfort'', ''health'', ''wellness'', ''garden''] text
                   then score + 5 else score));
          score =
            (if user_gender = ''female'' then
               (if any_in2 [''beauty'', ''fashion'', ''home'', ''personal care''] category title
                then score + 8 else score)
             else if user_gender = ''male'' then
               (if any_in2 [''tools'', ''automotive'', ''sports'', ''tech''] category title
                then score + 8 else score)
             else score)
      in max 0 score)"

section \<open>Preference extraction\<close>

text \<open>The loops \<^verbatim>\<open>for item in items: if 'product' in item: all_products.append(item['product'])\<close>.\<close>

fun collect_products :: "activity_item list \<Rightarrow> product list" where
  "collect_products [] = []"
| "collect_products (item # items) =
     (case item_product item of
        None \<Rightarrow> collect_products items
      | Some p \<Rightarrow> p # collect_products items)"

text \<open>The loop that counts the categories of the pool into \<^verbatim>\<open>preferred_categories\<close>.\<close>

fun count_categories :: "(string \<rightharpoonup> nat) \<Rightarrow> product list \<Rightarrow> (string \<rightharpoonup> nat)" where
  "count_categories m [] = m"
| "count_categories m (product # ps) =
     (let category = get (p_category product) ''''
      in count_categories (m(category \<mapsto> get (m category) 0 + 1)) ps)"

text \<open>Truth value of \<^verbatim>\<open>p.get(key)\<close> for a numeric field: absent and zero are both false.\<close>

definition truthy :: "real option \<Rightarrow> bool" where
  "truthy field = (case field of None \<Rightarrow> False | Some v \<Rightarrow> v \<noteq> 0)"

text \<open>The loop that gathers the first ten lower-cased words of each non-empty text.\<close>

fun collect_keywords :: "product list \<Rightarrow> string list" where
  "collect_keywords [] = []"
| "collect_keywords (product # ps) =
     (let text = get (p_text product) ''''
      in if text \<noteq> [] then take 10 (str_split (str_lower text)) @ collect_keywords ps
         else collect_keywords ps)"

definition default_preferences :: preferences where
  "default_preferences =
     \<lparr>preferred_categories = Map.empty, price_range_min = 0, price_range_max = 1000,
      eco_score_threshold = 0, pref_keywords = []\<rparr>"

definition extract_user_preferences ::
  "activity_item list \<Rightarrow> activity_item list \<Rightarrow> product list \<Rightarrow> preferences" where
  "extract_user_preferences cart_items wishlist_items viewed_products =
     (let preferences = default_preferences;
          all_products = collect_products cart_items @ collect_products wishlist_items
                         @ viewed_products
      in if all_products = [] then preferences
         else
           (let preferences = preferences
                  \<lparr>preferred_categories :=
                     count_categories (preferred_categories preferences) all_products\<rparr>;
                prices = map (\<lambda>p. get (p_price p) 0)
                             (filter (\<lambda>p. truthy (p_price p)) all_products);
                preferences =
                  (case prices of
                     [] \<Rightarrow> preferences
                   | v # vs \<Rightarrow>
                       preferences\<lparr>price_range_min := py_min v vs * 0.8,
                                   price_range_max := py_max v vs * 1.2\<rparr>);
                eco_scores = map (\<lambda>p. get (p_ecoScore p) 0)
                                 (filter (\<lambda>p. truthy (p_ecoScore p)) all_products);
                preferences =
                  (if eco_scores \<noteq> [] then
                     preferences\<lparr>eco_score_threshold :=
                                   sum_list eco_scores / real (length eco_scores) * 0.8\<rparr>
                   else preferences)
            in preferences\<lparr>pref_keywords :=
                             pref_keywords preferences @ collect_keywords all_products\<rparr>))"

section \<open>Personalized scoring\<close>

definition calculate_personalized_score ::
  "product \<Rightarrow> preferences \<Rightarrow> int \<Rightarrow> string \<Rightarrow> real" where
  "calculate_personalized_score product preferences user_age user_gender =
     (let score = 0;
          score = score + calculate_demographic_score product user_age user_gender * 0.4;
          category = get (p_category product) '''';
          score = (case preferred_categories preferences category of
                     Some n \<Rightarrow> score + real n * 8
                   | None \<Rightarrow> score);
          price = get (p_price product) 0;
          score = (if price_range_min preferences \<le> price \<and> price \<le> price_range_max preferences
                   then score + 20 else score);
          eco_score = get (p_ecoScore product) 0;
          score = (if eco_score \<ge> eco_score_threshold preferences then score + 15 else score);
          product_text = str_lower (get (p_text product) '''');
          keyword_matches =
            length (filter (\<lambda>keyword. str_in keyword product_text) (pref_keywords preferences));
          score = score + real keyword_matches * 1.5
      in max 0 score)"

section \<open>Ranking\<close>

text \<open>The empty dictionary \<^verbatim>\<open>{}\<close> that \<^verbatim>\<open>item.get('product', {})\<close> falls back to.\<close>

definition empty_product :: product where
  "empty_product =
     \<lparr>p_id = None, p_category = None, p_title = None, p_text = None, p_price = None,
      p_ecoScore = None\<rparr>"

fun in_items :: "int \<Rightarrow> activity_item list \<Rightarrow> bool" where
  "in_items product_id [] = False"
| "in_items product_id (item # items) =
     (if p_id (get (item_product item) empty_product) = Some product_id then True
      else in_items product_id items)"

definition is_product_in_activity ::
  "int \<Rightarrow> activity_item list \<Rightarrow> activity_item list \<Rightarrow> bool" where
  "is_product_in_activity product_id cart_items wishlist_items =
     (if in_items product_id cart_items then True
      else if in_items product_id wishlist_items then True
      else False)"

text \<open>The scoring loop of \<^verbatim>\<open>get_cold_start_recommendations\<close>.\<close>

fun cold_start_scored :: "product list \<Rightarrow> int \<Rightarrow> string \<Rightarrow> scored_product list" where
  "cold_start_scored [] user_age user_gender = []"
| "cold_start_scored (product # ps) user_age user_gender =
     (let score = calculate_demographic_score product user_age user_gender
      in if score > 0
         then \<lparr>sp_product = product, recommendation_score = score\<rparr>
              # cold_start_scored ps user_age user_gender
         else cold_start_scored ps user_age user_gender)"

definition get_cold_start_recommendations ::
  "product list \<Rightarrow> int \<Rightarrow> string \<Rightarrow> int \<Rightarrow> scored_product list" where
  "get_cold_start_recommendations products user_age user_gender limit =
     (let scored_products = cold_start_scored products user_age user_gender;
          scored_products =
            sort_reverse (\<lambda>x. (recommendation_score x, get (p_ecoScore (sp_product x)) 0))
              scored_products
      in slice_to limit scored_products)"

text \<open>
  The scoring loop of \<^verbatim>\<open>get_personalized_recommendations\<close>. \<^verbatim>\<open>product['id']\<close> raises
  \<^verbatim>\<open>KeyError\<close> on a candidate without identifier, which ends the call.
\<close>

fun personalized_scored ::
  "product list \<Rightarrow> preferences \<Rightarrow> activity_item list \<Rightarrow> activity_item list \<Rightarrow> int \<Rightarrow> string
   \<Rightarrow> error + scored_product list" where
  "personalized_scored [] preferences cart_items wishlist_items user_age user_gender = Inr []"
| "personalized_scored (product # ps) preferences cart_items wishlist_items user_age user_gender =
     (case index (p_id product) of
        Inl e \<Rightarrow> Inl e
      | Inr product_id \<Rightarrow>
          (if is_product_in_activity product_id cart_items wishlist_items
           then personalized_scored ps preferences cart_items wishlist_items user_age user_gender
           else
             (let score = calculate_personalized_score product preferences user_age user_gender
              in if score > 0
                 then (case personalized_scored ps preferences cart_items wishlist_items
                              user_age user_gender of
                         Inl e \<Rightarrow> Inl e
                       | Inr rest \<Rightarrow>
                           Inr (\<lparr>sp_product = product, recommendation_score = score\<rparr> # rest))
                 else personalized_scored ps preferences cart_items wishlist_items
                        user_age user_gender)))"

definition get_personalized_recommendations ::
  "product list \<Rightarrow> user_data \<Rightarrow> int \<Rightarrow> error + scored_product list" where
  "get_personalized_recommendations products user_data limit =
     (let user_age = get (ud_age user_data) 25;
          user_gender = get (ud_gender user_data) ''male'';
          cart_items = get (ud_cart_items user_data) [];
          wishlist_items = get (ud_wishlist_items user_data) [];
          viewed_products = get (ud_viewed_products user_data) [];
          preferences = extract_user_preferences cart_items wishlist_items viewed_products
      in case personalized_scored products preferences cart_items wishlist_items
                user_age user_gender of
           Inl e \<Rightarrow> Inl e
         | Inr scored_products \<Rightarrow>
             Inr (slice_to limit (sort_reverse recommendation_score scored_products)))"

section \<open>The storage-backed variant\<close>

text \<open>
  \<^verbatim>\<open>server/recommendations.py\<close> holds a second engine that works on rows fetched from
  storage. Its scoring uses other weights, and it reads category, price, eco-score and
  text by indexing (\<^verbatim>\<open>product['category']\<close>), which raises \<^verbatim>\<open>KeyError\<close> on an absent key;
  only the eco-score of the demographic score is read with a default.
\<close>

definition storage_calculate_demographic_score :: "product \<Rightarrow> int \<Rightarrow> string \<Rightarrow> error + real" where
  "storage_calculate_demographic_score product user_age user_gender =
     (case index (p_category product) of
        Inl e \<Rightarrow> Inl e
      | Inr category \<Rightarrow>
          (let score = 0;
               score = score + get (p_ecoScore product) 0 * 0.6;
               score =
                 (if user_age < 25 then
                    (if any_in [''electronics'', ''fashion'', ''sports''] (str_lower category)
                     then score + 10 else score)
                  else if user_age < 40 then
                    (if any_in [''home'', ''kitchen'', ''outdoor'', ''garden''] (str_lower category)
                     then score + 10 else score)
                  else
                    (if any_in [''health'', ''improvement'', ''garden''] (str_lower category)
                     then score + 10 else score));
               score =
                 (if user_gender = ''female'' then
                    (if any_in [''beauty'', ''fashion'', ''home''] (str_lower category)
                     then score + 5 else score)
                  else if user_gender = ''male'' then
                    (if any_in [''tools'', ''automotive'', ''sports''] (str_lower category)
                     then score + 5 else score)
                  else score)
           in Inr (max 0 score)))"

definition storage_calculate_personalized_score ::
  "product \<Rightarrow> preferences \<Rightarrow> int \<Rightarrow> string \<Rightarrow> error + real" where
  "storage_calculate_personalized_score product preferences user_age user_gender =
     (case storage_calculate_demographic_score product user_age user_gender of
        Inl e \<Rightarrow> Inl e
      | Inr demographic \<Rightarrow>
     (case index (p_category product) of
        Inl e \<Rightarrow> Inl e
      | Inr category \<Rightarrow>
     (case index (p_price product) of
        Inl e \<Rightarrow> Inl e
      | Inr price \<Rightarrow>
     (case index (p_ecoScore product) of
        Inl e \<Rightarrow> Inl e
      | Inr eco_score \<Rightarrow>
     (case index (p_text product) of
        Inl e \<Rightarrow> Inl e
      | Inr text \<Rightarrow>
          (let score = 0;
               score = score + demographic * 0.3;
               score = (case preferred_categories preferences category of
                          Some n \<Rightarrow> score + real n * 5
                        | None \<Rightarrow> score);
               score = (if price_range_min preferences \<le> price
                           \<and> price \<le> price_range_max preferences
                        then score + 15 else score);
               score = (if eco_score \<ge> eco_score_threshold preferences then score + 10
                        else score);
               product_text = str_lower text;
               keyword_matches =
                 length (filter (\<lambda>keyword. str_in keyword product_text)
                           (pref_keywords preferences));
               score = score + real keyword_matches * 2
           in Inr (max 0 score)))))))"

text \<open>\<^verbatim>\<open>[f(p[key]) for p in ps]\<close> and the loops over \<^verbatim>\<open>p[key]\<close>: the first absent key raises.\<close>

fun index_all :: "('a \<Rightarrow> 'b option) \<Rightarrow> 'a list \<Rightarrow> error + 'b list" where
  "index_all field [] = Inr []"
| "index_all field (p # ps) =
     (case index (field p) of
        Inl e \<Rightarrow> Inl e
      | Inr v \<Rightarrow> (case index_all field ps of Inl e \<Rightarrow> Inl e | Inr vs \<Rightarrow> Inr (v # vs)))"

fun count_all :: "(string \<rightharpoonup> nat) \<Rightarrow> string list \<Rightarrow> (string \<rightharpoonup> nat)" where
  "count_all m [] = m"
| "count_all m (category # cs) = count_all (m(category \<mapsto> get (m category) 0 + 1)) cs"

definition storage_extract_user_preferences ::
  "activity_item list \<Rightarrow> activity_item list \<Rightarrow> product list \<Rightarrow> error + preferences" where
  "storage_extract_user_preferences cart_items wishlist_items viewed_products =
     (let preferences = default_preferences
      in case index_all item_product cart_items of
        Inl e \<Rightarrow> Inl e
      | Inr from_cart \<Rightarrow>
     (case index_all item_product wishlist_items of
        Inl e \<Rightarrow> Inl e
      | Inr from_wishlist \<Rightarrow>
          (let all_products = from_cart @ from_wishlist @ viewed_products
           in if all_products = [] then Inr preferences
              else
     (case index_all p_category all_products of
        Inl e \<Rightarrow> Inl e
      | Inr categories \<Rightarrow>
     (case index_all p_price all_products of
        Inl e \<Rightarrow> Inl e
      | Inr prices \<Rightarrow>
     (case index_all p_ecoScore all_products of
        Inl e \<Rightarrow> Inl e
      | Inr eco_scores \<Rightarrow>
     (case index_all p_text all_products of
        Inl e \<Rightarrow> Inl e
      | Inr texts \<Rightarrow>
          Inr \<lparr>preferred_categories = count_all (preferred_categories preferences) categories,
               price_range_min = (case prices of
                                    [] \<Rightarrow> price_range_min preferences
                                  | v # vs \<Rightarrow> py_min v vs * 0.8),
               price_range_max = (case prices of
                                    [] \<Rightarrow> price_range_max preferences
                                  | v # vs \<Rightarrow> py_max v vs * 1.2),
               eco_score_threshold =
                 (if eco_scores \<noteq> [] then sum_list eco_scores / real (length eco_scores) * 0.8
                  else eco_score_threshold preferences),
               pref_keywords =
                 pref_keywords preferences
                 @ concat (map (\<lambda>text. str_split (str_lower text)) texts)\<rparr>)))))))"

text \<open>
  The scoring loop and the ranking of \<^verbatim>\<open>get_cold_start_recommendations\<close> in
  \<^verbatim>\<open>server/recommendations.py\<close>; the candidates are what storage returned. The sort
  computes the key \<^verbatim>\<open>(x['recommendation_score'], x['eco_score'])\<close> of every entry
  first, and \<^verbatim>\<open>x['eco_score']\<close> raises on an entry without eco-score.
\<close>

fun storage_cold_start_scored ::
  "product list \<Rightarrow> int \<Rightarrow> string \<Rightarrow> error + scored_product list" where
  "storage_cold_start_scored [] user_age user_gender = Inr []"
| "storage_cold_start_scored (product # ps) user_age user_gender =
     (case storage_calculate_demographic_score product user_age user_gender of
        Inl e \<Rightarrow> Inl e
      | Inr score \<Rightarrow>
          (case storage_cold_start_scored ps user_age user_gender of
             Inl e \<Rightarrow> Inl e
           | Inr rest \<Rightarrow>
               (if score > 0
                then Inr (\<lparr>sp_product = product, recommendation_score = score\<rparr> # rest)
                else Inr rest)))"

definition storage_get_cold_start_recommendations ::
  "product list \<Rightarrow> int \<Rightarrow> string \<Rightarrow> int \<Rightarrow> error + scored_product list" where
  "storage_get_cold_start_recommendations products user_age user_gender limit =
     (case storage_cold_start_scored products user_age user_gender of
        Inl e \<Rightarrow> Inl e
      | Inr scored_products \<Rightarrow>
          (case index_all (\<lambda>x. p_ecoScore (sp_product x)) scored_products of
             Inl e \<Rightarrow> Inl e
           | Inr eco_scores \<Rightarrow>
               (let keys = zip (map recommendation_score scored_products) eco_scores
                in Inr (slice_to limit
                          (map fst (sort_reverse snd (zip scored_products keys)))))))"

section \<open>Notions used in the statements\<close>

text \<open>
  What \<^const>\<open>calculate_demographic_score\<close> adds on top of the eco-score base: the age-band
  bonus and the gender bonus, as a function of the lower-cased category, title and text.
\<close>

definition demographic_bonus :: "string \<Rightarrow> string \<Rightarrow> string \<Rightarrow> int \<Rightarrow> string \<Rightarrow> real" where
  "demographic_bonus category title text user_age user_gender =
     (if user_age < 25 then
        (if any_in2 [''electronics'', ''fashion'', ''sports'', ''tech'', ''gadget''] category title
         then 15 else 0)
        + (if any_in [''portable'', ''travel'', ''compact'', ''modern''] text then 5 else 0)
      else if user_age < 40 then
        (if any_in [''home'', ''kitchen'', ''outdoor'', ''garden''] category then 15 else 0)
        + (if any_in [''family'', ''home'', ''kitchen'', ''cooking''] text then 5 else 0)
      else
        (if any_in [''health'', ''improvement'', ''garden'', ''wellness''] category then 15 else 0)
        + (if any_in [''comfort'', ''health'', ''wellness'', ''garden''] text then 5 else 0))
     + (if user_gender = ''female'' then
          (if any_in2 [''beauty'', ''fashion'', ''home'', ''personal care''] category title
           then 8 else 0)
        else if user_gender = ''male'' then
          (if any_in2 [''tools'', ''automotive'', ''sports'', ''tech''] category title
           then 8 else 0)
        else 0)"

text \<open>
  The product with every absent optional field replaced by its default: category, title
  and text by the empty string, price and eco-score by 0. The identifier is kept.
\<close>

definition with_defaults :: "product \<Rightarrow> product" where
  "with_defaults p =
     p\<lparr>p_category := Some (get (p_category p) ''''),
       p_title := Some (get (p_title p) ''''),
       p_text := Some (get (p_text p) ''''),
       p_price := Some (get (p_price p) 0),
       p_ecoScore := Some (get (p_ecoScore p) 0)\<rparr>"

definition item_with_defaults :: "activity_item \<Rightarrow> activity_item" where
  "item_with_defaults item = item\<lparr>item_product := map_option with_defaults (item_product item)\<rparr>"

definition scored_with_defaults :: "scored_product \<Rightarrow> scored_product" where
  "scored_with_defaults x = x\<lparr>sp_product := with_defaults (sp_product x)\<rparr>"

definition user_data_with_defaults :: "user_data \<Rightarrow> user_data" where
  "user_data_with_defaults u =
     u\<lparr>ud_cart_items := map_option (map item_with_defaults) (ud_cart_items u),
       ud_wishlist_items := map_option (map item_with_defaults) (ud_wishlist_items u),
       ud_viewed_products := map_option (map with_defaults) (ud_viewed_products u)\<rparr>"

text \<open>The prices that are present in a pool of products, and those that are not 0.\<close>

definition present_prices :: "product list \<Rightarrow> real list" where
  "present_prices pool = List.map_filter p_price pool"

definition nonzero_prices :: "product list \<Rightarrow> real list" where
  "nonzero_prices pool = filter (\<lambda>v. v \<noteq> 0) (present_prices pool)"

text \<open>Sample data.\<close>

definition lamp :: product where
  "lamp = \<lparr>p_id = Some 1, p_category = Some ''Electronics'', p_title = Some ''Lamp'',
            p_text = None, p_price = Some 10, p_ecoScore = Some 25\<rparr>"

definition notebook :: product where
  "notebook = \<lparr>p_id = Some 2, p_category = Some ''Books'', p_title = None,
                p_text = Some ''Paper notebook'', p_price = None, p_ecoScore = Some 50\<rparr>"

definition free_sample :: product where
  "free_sample = \<lparr>p_id = Some 3, p_category = None, p_title = Some ''Free sample'',
                   p_text = None, p_price = Some 0, p_ecoScore = None\<rparr>"

definition bicycle :: product where
  "bicycle = \<lparr>p_id = Some 4, p_category = Some ''Sports'', p_title = Some ''City bicycle'',
               p_text = Some ''Compact and modern'', p_price = Some 30, p_ecoScore = Some 80\<rparr>"

definition gift :: product where
  "gift = \<lparr>p_id = Some 5, p_category = Some ''Home'', p_title = Some ''Gift card'',
            p_text = Some ''Seed paper card'', p_price = Some 0, p_ecoScore = Some 60\<rparr>"

definition charger :: product where
  "charger = \<lparr>p_id = Some 6, p_category = Some ''Electronics'', p_title = Some ''Charger'',
               p_text = Some ''Usb wall plug'', p_price = Some 15, p_ecoScore = None\<rparr>"

definition sample_user :: user_data where
  "sample_user =
     \<lparr>ud_age = Some 20, ud_gender = None,
      ud_cart_items = Some [\<lparr>item_product = Some lamp\<rparr>, \<lparr>item_product = None\<rparr>],
      ud_wishlist_items = None, ud_viewed_products = None\<rparr>"

section \<open>Scoring\<close>

lemma demographic_score_eq:
  "calculate_demographic_score p a g =
     max 0 (get (p_ecoScore p) 0 * 0.6
            + demographic_bonus (str_lower (get (p_category p) ''''))
                (str_lower (get (p_title p) '''')) (str_lower (get (p_text p) '''')) a g)"
  unfolding calculate_demographic_score_def demographic_bonus_def Let_def
  by (simp only: if_distrib [of "\<lambda>s. s + _"] if_distrib [of "\<lambda>s. max 0 s"]
        if_distrib [of "\<lambda>s. _ + s"] add_0 add_0_right add.assoc cong: if_cong)

lemma demographic_score_nonneg: "0 \<le> calculate_demographic_score p a g"
  unfolding demographic_score_eq by simp

text \<open>
  Claim C1. The personalized score is 0.4 times the demographic score, plus 8 times the
  affinity count of the product's category when the category is a key of the profile,
  plus 20 when the price lies in the profile's price range (bounds included), plus 15 when
  the eco-score reaches the profile's threshold, plus 1.5 for every profile keyword that is
  a substring of the lower-cased product text; the sum is clamped below at 0.
\<close>

theorem personalized_score_formula:
  "calculate_personalized_score product preferences user_age user_gender =
     max 0 (0.4 * calculate_demographic_score product user_age user_gender
       + 8 * (case preferred_categories preferences (get (p_category product) '''') of
                Some n \<Rightarrow> real n | None \<Rightarrow> 0)
       + (if price_range_min preferences \<le> get (p_price product) 0
             \<and> get (p_price product) 0 \<le> price_range_max preferences then 20 else 0)
       + (if eco_score_threshold preferences \<le> get (p_ecoScore product) 0 then 15 else 0)
       + 1.5 * real (length (filter
                 (\<lambda>keyword. str_in keyword (str_lower (get (p_text product) '''')))
                 (pref_keywords preferences))))"
  unfolding calculate_personalized_score_def Let_def
  by (simp split: option.split add: algebra_simps)

text \<open>
  Claim C2. The product with category "electronics", title "Solar Charger", text
  "portable travel charger", price 40 and eco-score 50 gets the demographic score 50 for
  a male user of age 20: 30 from the eco-score, 15 for the category, 5 for the text and
  no gender bonus.
\<close>

theorem demographic_score_example:
  "calculate_demographic_score
     \<lparr>p_id = None, p_category = Some ''electronics'', p_title = Some ''Solar Charger'',
      p_text = Some ''portable travel charger'', p_price = Some 40, p_ecoScore = Some 50\<rparr>
     20 ''male'' = 50"
  by code_simp

text \<open>
  Claim C5. When cart, wishlist and viewed products are all empty, preference extraction
  returns the default profile: price range from 0 to 1000, threshold 0, no category
  affinity and no keyword.
\<close>

theorem extract_empty_activity:
  "extract_user_preferences [] [] [] =
     \<lparr>preferred_categories = Map.empty, price_range_min = 0, price_range_max = 1000,
      eco_score_threshold = 0, pref_keywords = []\<rparr>"
  by (simp add: extract_user_preferences_def default_preferences_def)

text \<open>
  Claim C8. The demographic score and the personalized score are never negative.
\<close>

theorem scores_nonneg:
  "0 \<le> calculate_demographic_score product user_age user_gender
   \<and> 0 \<le> calculate_personalized_score product preferences user_age user_gender"
proof
  show "0 \<le> calculate_demographic_score product user_age user_gender"
    by (rule demographic_score_nonneg)
  show "0 \<le> calculate_personalized_score product preferences user_age user_gender"
    unfolding calculate_personalized_score_def Let_def by (rule max.cobounded1)
qed

text \<open>
  Claim C10. For two products with the same category, title and text, the demographic
  score is monotone in the eco-score (an absent eco-score counts as 0): the product with
  the smaller eco-score never scores higher, whatever the age and gender.
\<close>

theorem demographic_score_mono_eco:
  assumes "p_category p1 = p_category p2"
      and "p_title p1 = p_title p2"
      and "p_text p1 = p_text p2"
      and "get (p_ecoScore p1) 0 \<le> get (p_ecoScore p2) 0"
  shows "calculate_demographic_score p1 user_age user_gender
         \<le> calculate_demographic_score p2 user_age user_gender"
  using assms unfolding demographic_score_eq by (simp add: max.coboundedI2)

theorem demographic_score_mono_eco_witness:
  "get (Some (50::real)) 0 \<le> get (Some 80) 0
   \<and> calculate_demographic_score
       \<lparr>p_id = Some 1, p_category = Some ''electronics'', p_title = Some ''Solar Charger'',
        p_text = Some ''portable travel charger'', p_price = Some 40, p_ecoScore = Some 50\<rparr>
       20 ''male''
     \<le> calculate_demographic_score
       \<lparr>p_id = Some 2, p_category = Some ''electronics'', p_title = Some ''Solar Charger'',
        p_text = Some ''portable travel charger'', p_price = None, p_ecoScore = Some 80\<rparr>
       20 ''male''"
  using demographic_score_mono_eco
    [of "\<lparr>p_id = Some 1, p_category = Some ''electronics'', p_title = Some ''Solar Charger'',
          p_text = Some ''portable travel charger'', p_price = Some 40, p_ecoScore = Some 50\<rparr>"
        "\<lparr>p_id = Some 2, p_category = Some ''electronics'', p_title = Some ''Solar Charger'',
          p_text = Some ''portable travel charger'', p_price = None, p_ecoScore = Some 80\<rparr>"
        20 "''male''"]
  by (simp add: get_def)

section \<open>Sorting and slicing\<close>

lemma length_sort_reverse: "length (sort_reverse f xs) = length xs"
  by (simp add: sort_reverse_def)

lemma set_sort_reverse: "set (sort_reverse f xs) = set xs"
  by (simp add: sort_reverse_def)

lemma sort_reverse_desc: "sorted_wrt (\<lambda>x y. f y \<le> f x) (sort_reverse f xs)"
proof -
  have "sorted (map f (sort_key f (rev xs)))"
    by (rule sorted_sort_key)
  then have "sorted_wrt (\<lambda>x y. f x \<le> f y) (sort_key f (rev xs))"
    by (simp add: sorted_map)
  then show ?thesis
    by (simp add: sort_reverse_def sorted_wrt_rev)
qed

lemma length_slice_to:
  "0 \<le> limit \<Longrightarrow> length (slice_to limit xs) = min (nat limit) (length xs)"
  by (simp add: slice_to_def)

lemma set_slice_to: "set (slice_to limit xs) \<subseteq> set xs"
  by (auto simp: slice_to_def dest: in_set_takeD)

lemma slice_to_sorted_wrt: "sorted_wrt P xs \<Longrightarrow> sorted_wrt P (slice_to limit xs)"
  by (simp add: slice_to_def)

section \<open>Cold-start ranking\<close>

lemma length_cold_start_scored:
  "length (cold_start_scored ps a g)
   = length (filter (\<lambda>p. 0 < calculate_demographic_score p a g) ps)"
  by (induction ps) (simp_all add: Let_def)

lemma cold_start_desc:
  "sorted_wrt (\<lambda>x y. (recommendation_score y, get (p_ecoScore (sp_product y)) 0)
                       \<le> (recommendation_score x, get (p_ecoScore (sp_product x)) (0::real)))
     (get_cold_start_recommendations products user_age user_gender limit)"
  unfolding get_cold_start_recommendations_def Let_def
  by (rule slice_to_sorted_wrt, rule sort_reverse_desc)

lemma cold_start_sample:
  "get_cold_start_recommendations [lamp, notebook] 20 ''other'' 5
   = [\<lparr>sp_product = notebook, recommendation_score = 30\<rparr>,
      \<lparr>sp_product = lamp, recommendation_score = 30\<rparr>]"
  by code_simp

text \<open>
  Claim C6. In the output of cold-start ranking, of two entries with the same
  recommendation score the one with the higher eco-score comes first (an absent eco-score
  counts as 0).
\<close>

theorem cold_start_tie_break:
  assumes "out = get_cold_start_recommendations products user_age user_gender limit"
      and "i < length out" and "j < length out"
      and "recommendation_score (out ! i) = recommendation_score (out ! j)"
      and "get (p_ecoScore (sp_product (out ! j))) 0 < get (p_ecoScore (sp_product (out ! i))) 0"
  shows "i < j"
proof (rule ccontr)
  assume "\<not> i < j"
  with assms(5) have "j < i"
    by (cases "i = j") auto
  with cold_start_desc [of products user_age user_gender limit] assms(1,2)
  have "(recommendation_score (out ! i), get (p_ecoScore (sp_product (out ! i))) 0)
        \<le> (recommendation_score (out ! j), get (p_ecoScore (sp_product (out ! j))) 0)"
    by (simp add: sorted_wrt_iff_nth_less)
  with assms(4,5) show False
    by (simp add: less_eq_prod_def)
qed

theorem cold_start_tie_break_witness:
  "recommendation_score (get_cold_start_recommendations [lamp, notebook] 20 ''other'' 5 ! 0)
     = recommendation_score (get_cold_start_recommendations [lamp, notebook] 20 ''other'' 5 ! 1)
   \<and> sp_product (get_cold_start_recommendations [lamp, notebook] 20 ''other'' 5 ! 0) = notebook
   \<and> sp_product (get_cold_start_recommendations [lamp, notebook] 20 ''other'' 5 ! 1) = lamp
   \<and> get (p_ecoScore lamp) 0 < get (p_ecoScore notebook) (0::real)
   \<and> (0::nat) < 1"
  using cold_start_tie_break
    [of "get_cold_start_recommendations [lamp, notebook] 20 ''other'' 5"
        "[lamp, notebook]" 20 "''other''" 5 0 1]
  unfolding cold_start_sample
  by (simp add: get_def lamp_def notebook_def)

text \<open>
  Claim C9. For a limit that is not negative, cold-start ranking returns at most limit
  entries, and at most as many entries as there are candidates with a demographic score
  above 0.
\<close>

theorem cold_start_length:
  assumes "0 \<le> limit"
  shows "length (get_cold_start_recommendations products user_age user_gender limit) \<le> nat limit
       \<and> length (get_cold_start_recommendations products user_age user_gender limit)
           \<le> length (filter (\<lambda>p. 0 < calculate_demographic_score p user_age user_gender)
                        products)"
  using assms
  by (simp add: get_cold_start_recommendations_def Let_def length_slice_to length_sort_reverse
        length_cold_start_scored)

theorem cold_start_length_witness:
  "(0::int) \<le> 1
   \<and> length (get_cold_start_recommendations [lamp, free_sample, notebook] 20 ''other'' 1) \<le> nat 1
   \<and> length (get_cold_start_recommendations [lamp, free_sample, notebook] 20 ''other'' 1)
       \<le> length (filter (\<lambda>p. 0 < calculate_demographic_score p 20 ''other'')
                    [lamp, free_sample, notebook])"
  using cold_start_length [of 1 "[lamp, free_sample, notebook]" 20 "''other''"]
  by simp

section \<open>Personalized ranking\<close>

lemma in_items_iff:
  "in_items i items
   \<longleftrightarrow> (\<exists>item \<in> set items. \<exists>q. item_product item = Some q \<and> p_id q = Some i)"
  by (induction items) (auto simp: get_def empty_product_def split: option.splits)

lemma is_product_in_activity_iff:
  "is_product_in_activity i cart wl
   \<longleftrightarrow> (\<exists>item \<in> set cart \<union> set wl. \<exists>q. item_product item = Some q \<and> p_id q = Some i)"
  by (auto simp: is_product_in_activity_def in_items_iff)

lemma personalized_scored_ids:
  "personalized_scored ps prefs cart wl a g = Inr out \<Longrightarrow> x \<in> set out \<Longrightarrow>
     \<exists>i. p_id (sp_product x) = Some i \<and> \<not> is_product_in_activity i cart wl"
proof (induction ps arbitrary: out)
  case Nil
  then show ?case by simp
next
  case (Cons p ps)
  then show ?case
    by (auto simp: index_def Let_def split: option.splits if_splits sum.splits)
qed

lemma personalized_sample:
  "get_personalized_recommendations [lamp, notebook] sample_user 5
   = Inr [\<lparr>sp_product = notebook, recommendation_score = 27\<rparr>]"
  by code_simp

text \<open>
  Claim C3. When personalized ranking returns a list, no entry of that list carries the
  identifier of a product that is wrapped in a cart item or in a wishlist item: every
  candidate with such an identifier is left out.
\<close>

theorem personalized_excludes_activity:
  assumes "get_personalized_recommendations products user_data limit = Inr out"
      and "item \<in> set (get (ud_cart_items user_data) [])
                   \<union> set (get (ud_wishlist_items user_data) [])"
      and "item_product item = Some q"
      and "p_id q = Some i"
  shows "Some i \<notin> set (map (\<lambda>x. p_id (sp_product x)) out)"
proof
  assume "Some i \<in> set (map (\<lambda>x. p_id (sp_product x)) out)"
  then obtain x where x: "x \<in> set out" "p_id (sp_product x) = Some i"
    by auto
  let ?cart = "get (ud_cart_items user_data) []"
  let ?wl = "get (ud_wishlist_items user_data) []"
  from assms(1) obtain scored where
    sc: "personalized_scored products
           (extract_user_preferences ?cart ?wl (get (ud_viewed_products user_data) []))
           ?cart ?wl (get (ud_age user_data) 25) (get (ud_gender user_data) ''male'')
         = Inr scored"
    and out: "out = slice_to limit (sort_reverse recommendation_score scored)"
    by (auto simp: get_personalized_recommendations_def Let_def split: sum.splits)
  from x(1) out have "x \<in> set scored"
    using set_slice_to [of limit "sort_reverse recommendation_score scored"]
    by (auto simp: set_sort_reverse)
  from personalized_scored_ids [OF sc this] x(2)
  have "\<not> is_product_in_activity i ?cart ?wl"
    by simp
  with assms(2-4) show False
    unfolding is_product_in_activity_iff by blast
qed

theorem personalized_excludes_activity_witness:
  "get_personalized_recommendations [lamp, notebook] sample_user 5
     = Inr [\<lparr>sp_product = notebook, recommendation_score = 27\<rparr>]
   \<and> Some 1 \<notin> set (map (\<lambda>x. p_id (sp_product x))
                      [\<lparr>sp_product = notebook, recommendation_score = 27\<rparr>])"
  using personalized_excludes_activity
    [OF personalized_sample, of "\<lparr>item_product = Some lamp\<rparr>" lamp 1]
  unfolding personalized_sample
  by (simp add: sample_user_def get_def lamp_def)

section \<open>Absent fields\<close>

lemma with_defaults_simps [simp]:
  "p_id (with_defaults p) = p_id p"
  "get (p_category (with_defaults p)) [] = get (p_category p) []"
  "get (p_title (with_defaults p)) [] = get (p_title p) []"
  "get (p_text (with_defaults p)) [] = get (p_text p) []"
  "get (p_price (with_defaults p)) 0 = get (p_price p) 0"
  "get (p_ecoScore (with_defaults p)) 0 = get (p_ecoScore p) 0"
  "truthy (p_price (with_defaults p)) = truthy (p_price p)"
  "truthy (p_ecoScore (with_defaults p)) = truthy (p_ecoScore p)"
  by (simp_all add: with_defaults_def get_def truthy_def split: option.splits)

lemma demographic_with_defaults:
  "calculate_demographic_score (with_defaults p) a g = calculate_demographic_score p a g"
  unfolding demographic_score_eq by simp

lemma personalized_with_defaults:
  "calculate_personalized_score (with_defaults p) prefs a g
   = calculate_personalized_score p prefs a g"
  unfolding calculate_personalized_score_def by (simp add: demographic_with_defaults)

lemma collect_products_with_defaults:
  "collect_products (map item_with_defaults items) = map with_defaults (collect_products items)"
  by (induction items) (auto simp: item_with_defaults_def split: option.splits)

lemma count_categories_with_defaults:
  "count_categories m (map with_defaults ps) = count_categories m ps"
  by (induction ps arbitrary: m) (simp_all add: Let_def)

lemma collect_keywords_with_defaults:
  "collect_keywords (map with_defaults ps) = collect_keywords ps"
  by (induction ps) (simp_all add: Let_def)

lemma truthy_prices_with_defaults:
  "map (\<lambda>p. get (p_price p) 0) (filter (\<lambda>p. truthy (p_price p)) (map with_defaults ps))
   = map (\<lambda>p. get (p_price p) 0) (filter (\<lambda>p. truthy (p_price p)) ps)"
  by (induction ps) simp_all

lemma truthy_eco_with_defaults:
  "map (\<lambda>p. get (p_ecoScore p) 0) (filter (\<lambda>p. truthy (p_ecoScore p)) (map with_defaults ps))
   = map (\<lambda>p. get (p_ecoScore p) 0) (filter (\<lambda>p. truthy (p_ecoScore p)) ps)"
  by (induction ps) simp_all

lemma extract_with_defaults:
  "extract_user_preferences (map item_with_defaults cart) (map item_with_defaults wl)
     (map with_defaults viewed)
   = extract_user_preferences cart wl viewed"
proof -
  have pool:
    "collect_products (map item_with_defaults cart) @ collect_products (map item_with_defaults wl)
       @ map with_defaults viewed
     = map with_defaults (collect_products cart @ collect_products wl @ viewed)"
    by (simp add: collect_products_with_defaults)
  show ?thesis
    unfolding extract_user_preferences_def pool Let_def
    unfolding count_categories_with_defaults collect_keywords_with_defaults
      truthy_prices_with_defaults truthy_eco_with_defaults
    by simp
qed

lemma extract_skips_item_without_product:
  "extract_user_preferences (\<lparr>item_product = None\<rparr> # cart) wl viewed
   = extract_user_preferences cart wl viewed"
  "extract_user_preferences cart (\<lparr>item_product = None\<rparr> # wl) viewed
   = extract_user_preferences cart wl viewed"
  by (simp_all add: extract_user_preferences_def)

lemma insort_key_map_inv:
  assumes "\<And>x. k (g x) = k x"
  shows "insort_key k (g a) (map g xs) = map g (insort_key k a xs)"
  by (induction xs) (simp_all add: assms)

lemma sort_key_map_inv:
  assumes "\<And>x. k (g x) = k x"
  shows "sort_key k (map g xs) = map g (sort_key k xs)"
  by (induction xs) (simp_all add: insort_key_map_inv [of k g, OF assms])

lemma sort_reverse_map_inv:
  assumes "\<And>x. k (g x) = k x"
  shows "sort_reverse k (map g xs) = map g (sort_reverse k xs)"
  unfolding sort_reverse_def
  by (simp only: rev_map sort_key_map_inv [of k g, OF assms])

lemma slice_to_map: "slice_to limit (map g xs) = map g (slice_to limit xs)"
  by (simp add: slice_to_def take_map)

lemma cold_start_scored_with_defaults:
  "cold_start_scored (map with_defaults ps) a g
   = map scored_with_defaults (cold_start_scored ps a g)"
  by (induction ps) (simp_all add: Let_def demographic_with_defaults scored_with_defaults_def)

lemma cold_start_with_defaults:
  "get_cold_start_recommendations (map with_defaults ps) a g limit
   = map scored_with_defaults (get_cold_start_recommendations ps a g limit)"
  unfolding get_cold_start_recommendations_def Let_def cold_start_scored_with_defaults
  by (subst sort_reverse_map_inv) (simp_all add: scored_with_defaults_def slice_to_map)

lemma in_items_with_defaults: "in_items i (map item_with_defaults items) = in_items i items"
  by (induction items)
    (auto simp: item_with_defaults_def get_def empty_product_def split: option.splits)

lemma is_product_in_activity_with_defaults:
  "is_product_in_activity i (map item_with_defaults cart) (map item_with_defaults wl)
   = is_product_in_activity i cart wl"
  by (simp add: is_product_in_activity_def in_items_with_defaults)

lemma personalized_scored_with_defaults:
  "personalized_scored (map with_defaults ps) prefs (map item_with_defaults cart)
     (map item_with_defaults wl) a g
   = map_sum id (map scored_with_defaults) (personalized_scored ps prefs cart wl a g)"
  by (induction ps)
    (auto simp: Let_def index_def personalized_with_defaults
       is_product_in_activity_with_defaults scored_with_defaults_def
       split: option.splits sum.splits)

lemma get_map_option: "get (map_option (map f) x) [] = map f (get x [])"
  by (cases x) (simp_all add: get_def)

lemma personalized_ranking_with_defaults:
  "get_personalized_recommendations (map with_defaults ps) (user_data_with_defaults u) limit
   = map_sum id (map scored_with_defaults) (get_personalized_recommendations ps u limit)"
proof -
  have k: "\<And>x. recommendation_score (scored_with_defaults x) = recommendation_score x"
    by (simp add: scored_with_defaults_def)
  show ?thesis
    unfolding get_personalized_recommendations_def Let_def
    by (simp add: user_data_with_defaults_def get_map_option extract_with_defaults
          personalized_scored_with_defaults sort_reverse_map_inv [of recommendation_score, OF k]
          slice_to_map split: sum.splits)
qed

lemma personalized_scored_returns:
  "(\<exists>out. personalized_scored ps prefs cart wl a g = Inr out)
   \<longleftrightarrow> list_all (\<lambda>p. p_id p \<noteq> None) ps"
  by (induction ps) (auto simp: index_def Let_def split: option.splits sum.splits)

lemma personalized_returns:
  "(\<exists>out. get_personalized_recommendations ps u limit = Inr out)
   \<longleftrightarrow> list_all (\<lambda>p. p_id p \<noteq> None) ps"
proof -
  let ?scored =
    "personalized_scored ps
       (extract_user_preferences (get (ud_cart_items u) []) (get (ud_wishlist_items u) [])
          (get (ud_viewed_products u) []))
       (get (ud_cart_items u) []) (get (ud_wishlist_items u) [])
       (get (ud_age u) 25) (get (ud_gender u) ''male'')"
  have "(\<exists>out. get_personalized_recommendations ps u limit = Inr out)
        \<longleftrightarrow> (\<exists>scored. ?scored = Inr scored)"
    by (cases ?scored) (simp_all add: get_personalized_recommendations_def Let_def)
  then show ?thesis
    by (simp only: personalized_scored_returns)
qed

text \<open>
  In \<^verbatim>\<open>server/recommendation_service.py\<close> absent optional fields never make scoring,
  preference extraction or ranking fail. The demographic score, the personalized score,
  preference extraction and cold-start ranking read every field with a default, so they
  always return a value, and the value is the one obtained after putting the defaults
  (category, title and text empty, price 0, eco-score 0) in place of the absent fields.
  An activity item without nested product is skipped by preference extraction.
  Personalized ranking treats absent fields in the same way; it returns a list exactly
  when every candidate carries an identifier.
\<close>

lemma service_absent_fields_default:
  "calculate_demographic_score p a g = calculate_demographic_score (with_defaults p) a g
   \<and> calculate_personalized_score p prefs a g
       = calculate_personalized_score (with_defaults p) prefs a g
   \<and> extract_user_preferences cart wl viewed
       = extract_user_preferences (map item_with_defaults cart) (map item_with_defaults wl)
           (map with_defaults viewed)
   \<and> extract_user_preferences (\<lparr>item_product = None\<rparr> # cart) wl viewed
       = extract_user_preferences cart wl viewed
   \<and> extract_user_preferences cart (\<lparr>item_product = None\<rparr> # wl) viewed
       = extract_user_preferences cart wl viewed
   \<and> map scored_with_defaults (get_cold_start_recommendations ps a g limit)
       = get_cold_start_recommendations (map with_defaults ps) a g limit
   \<and> map_sum id (map scored_with_defaults) (get_personalized_recommendations ps u limit)
       = get_personalized_recommendations (map with_defaults ps) (user_data_with_defaults u) limit
   \<and> ((\<exists>out. get_personalized_recommendations ps u limit = Inr out)
        \<longleftrightarrow> list_all (\<lambda>p. p_id p \<noteq> None) ps)"
  by (simp only: demographic_with_defaults personalized_with_defaults extract_with_defaults
        extract_skips_item_without_product cold_start_with_defaults
        personalized_ranking_with_defaults personalized_returns simp_thms)

section \<open>Price range\<close>

lemma py_min_Min: "py_min x xs = Min (set (x # xs))"
  by (simp only: py_min_def Min.set_eq_fold)

lemma py_max_Max: "py_max x xs = Max (set (x # xs))"
  by (simp only: py_max_def Max.set_eq_fold)

lemma truthy_prices_eq:
  "map (\<lambda>p. get (p_price p) 0) (filter (\<lambda>p. truthy (p_price p)) pool) = nonzero_prices pool"
  by (induction pool)
    (auto simp: nonzero_prices_def present_prices_def truthy_def get_def split: option.splits)

lemma nonzero_prices_Nil [simp]: "nonzero_prices [] = []"
  by (simp add: nonzero_prices_def present_prices_def)

lemma price_range_extract:
  "price_range_min (extract_user_preferences cart wl viewed)
     = (if nonzero_prices (collect_products cart @ collect_products wl @ viewed) = [] then 0
        else Min (set (nonzero_prices (collect_products cart @ collect_products wl @ viewed)))
             * 0.8)"
  "price_range_max (extract_user_preferences cart wl viewed)
     = (if nonzero_prices (collect_products cart @ collect_products wl @ viewed) = [] then 1000
        else Max (set (nonzero_prices (collect_products cart @ collect_products wl @ viewed)))
             * 1.2)"
proof -
  let ?pool = "collect_products cart @ collect_products wl @ viewed"
  show "price_range_min (extract_user_preferences cart wl viewed)
     = (if nonzero_prices ?pool = [] then 0 else Min (set (nonzero_prices ?pool)) * 0.8)"
  proof (cases "?pool = []")
    case True
    then show ?thesis
      by (simp add: extract_user_preferences_def default_preferences_def)
  next
    case False
    then show ?thesis
      unfolding extract_user_preferences_def Let_def truthy_prices_eq py_min_Min py_max_Max
      by (cases "nonzero_prices ?pool") (auto simp: default_preferences_def)
  qed
  show "price_range_max (extract_user_preferences cart wl viewed)
     = (if nonzero_prices ?pool = [] then 1000 else Max (set (nonzero_prices ?pool)) * 1.2)"
  proof (cases "?pool = []")
    case True
    then show ?thesis
      by (simp add: extract_user_preferences_def default_preferences_def)
  next
    case False
    then show ?thesis
      unfolding extract_user_preferences_def Let_def truthy_prices_eq py_min_Min py_max_Max
      by (cases "nonzero_prices ?pool") (auto simp: default_preferences_def)
  qed
qed

text \<open>
  Claim C7. The price-range bounds are to be [min * 0.8, max * 1.2] over exactly the
  prices that are present in the pool, a present price of 0 included. In
  \<^verbatim>\<open>server/recommendation_service.py\<close> the filter \<^verbatim>\<open>if p.get('price')\<close> drops a price
  that is present and 0 together with the absent ones: with a free sample (price 0) and
  a lamp (price 10) in the pool the present prices are 0 and 10, and the lower bound
  comes out as 8 instead of 0.
\<close>

theorem price_range_drops_zero_price:
  "present_prices [free_sample, lamp] = [0, 10]
   \<and> price_range_min (extract_user_preferences [] [] [free_sample, lamp]) = 8
   \<and> price_range_min (extract_user_preferences [] [] [free_sample, lamp])
       \<noteq> Min (set (present_prices [free_sample, lamp])) * 0.8"
  by (simp add: price_range_extract nonzero_prices_def present_prices_def free_sample_def
        lamp_def)

section \<open>What the storage-backed variant does instead\<close>

lemma storage_demographic_score_example:
  "storage_calculate_demographic_score
     \<lparr>p_id = None, p_category = Some ''electronics'', p_title = Some ''Solar Charger'',
      p_text = Some ''portable travel charger'', p_price = Some 40, p_ecoScore = Some 50\<rparr>
     20 ''male'' = Inr 40"
  by code_simp

lemma storage_demographic_score_absent_category:
  "p_category p = None \<Longrightarrow> storage_calculate_demographic_score p a g = Inl KeyError"
  by (simp add: storage_calculate_demographic_score_def index_def)

lemma error_is_KeyError: "(e :: error) = KeyError"
  by (cases e) simp

lemma storage_personalized_score_absent_price:
  "p_price p = None \<Longrightarrow> storage_calculate_personalized_score p prefs a g = Inl KeyError"
  by (simp add: storage_calculate_personalized_score_def index_def error_is_KeyError
        split: sum.splits)

lemma storage_extract_item_without_product:
  "storage_extract_user_preferences (\<lparr>item_product = None\<rparr> # cart) wl viewed = Inl KeyError"
  by (simp add: storage_extract_user_preferences_def index_def)

lemma storage_extract_empty_activity:
  "storage_extract_user_preferences [] [] [] = Inr default_preferences"
  by (simp add: storage_extract_user_preferences_def)

lemma storage_extract_zero_price:
  "map_sum id price_range_min (storage_extract_user_preferences [] [] [gift, bicycle]) = Inr 0"
  by code_simp

lemma service_scores_free_sample: "calculate_demographic_score free_sample 20 ''male'' = 0"
  by code_simp

lemma storage_cold_start_charger:
  "storage_get_cold_start_recommendations [charger] 20 ''male'' 5 = Inl KeyError"
  by code_simp

lemma service_cold_start_charger:
  "get_cold_start_recommendations [charger] 20 ''male'' 5
   = [\<lparr>sp_product = charger, recommendation_score = 15\<rparr>]"
  by code_simp

text \<open>
  Claim C4. Absent optional fields are never to make scoring, preference extraction or
  ranking fail. The engine of \<^verbatim>\<open>server/recommendations.py\<close> fails on them: its
  demographic score raises \<^verbatim>\<open>KeyError\<close> on a product without category, its personalized
  score and its preference extraction on a product without price, its preference
  extraction on a cart item without nested product, and its cold-start ranking on a
  scored product without eco-score. The engine of \<^verbatim>\<open>server/recommendation_service.py\<close>
  returns a value on the same inputs.
\<close>

theorem storage_absent_fields_raise:
  "storage_calculate_demographic_score free_sample 20 ''male'' = Inl KeyError
   \<and> calculate_demographic_score free_sample 20 ''male'' = 0
   \<and> storage_calculate_personalized_score notebook default_preferences 20 ''male''
       = Inl KeyError
   \<and> storage_extract_user_preferences [\<lparr>item_product = None\<rparr>] [] [] = Inl KeyError
   \<and> extract_user_preferences [\<lparr>item_product = None\<rparr>] [] [] = default_preferences
   \<and> storage_extract_user_preferences [] [] [notebook] = Inl KeyError
   \<and> storage_get_cold_start_recommendations [charger] 20 ''male'' 5 = Inl KeyError
   \<and> get_cold_start_recommendations [charger] 20 ''male'' 5
       = [\<lparr>sp_product = charger, recommendation_score = 15\<rparr>]"
proof -
  have "storage_calculate_demographic_score free_sample 20 ''male'' = Inl KeyError"
    by (rule storage_demographic_score_absent_category) (simp add: free_sample_def)
  moreover have "storage_calculate_personalized_score notebook default_preferences 20 ''male''
                 = Inl KeyError"
    by (rule storage_personalized_score_absent_price) (simp add: notebook_def)
  moreover have "storage_extract_user_preferences [\<lparr>item_product = None\<rparr>] [] []
                 = Inl KeyError"
    by (rule storage_extract_item_without_product)
  moreover have "extract_user_preferences [\<lparr>item_product = None\<rparr>] [] []
                 = default_preferences"
    by (simp add: extract_user_preferences_def)
  moreover have "storage_extract_user_preferences [] [] [notebook] = Inl KeyError"
    by (simp add: storage_extract_user_preferences_def index_def notebook_def)
  ultimately show ?thesis
    using service_scores_free_sample storage_cold_start_charger service_cold_start_charger
    by simp
qed

end
